theory Spec2Isabelle
  imports Main "HOL-Library.Sublist"
begin

section \<open>Values crossing the HTTP boundary\<close>

text \<open>
  The backend of \<^verbatim>\<open>src/app.py\<close> is a Flask application with four routes. Every handler
  reads the JSON body of the request with \<^verbatim>\<open>request.json\<close>, talks to SQLite or to the
  remote completion API, and answers with \<^verbatim>\<open>jsonify(...), status\<close>. JSON documents are
  a datatype; an object is the list of its items (keys distinct, as in a decoded Python
  dict) and \<open>map_of\<close> looks a key up. Text is a list of characters read as code points
  below 256. A number is an integer: numbers with a fractional part are not represented.

  A handler receives the decoded body as it is: any document, whose fields hold any
  values.
\<close>

datatype json =
    JNull
  | JBool bool
  | JNum int
  | JStr string
  | JArr "json list"
  | JObj "(string \<times> json) list"

text \<open>
  The exceptions that can escape a step of a handler. \<open>KeyError\<close> and \<open>IndexError\<close> are
  caught by \<^verbatim>\<open>generate_fix\<close>. \<open>BindError\<close> is the error of \<^verbatim>\<open>sqlite3\<close> for a
  parameter of a type it cannot bind (a list or a dict), \<open>OverflowError\<close> the one for an
  integer outside 64 bits.
\<close>

datatype pyexn =
  AttributeError | TypeError | KeyError | IndexError | BindError | OverflowError

text \<open>
  A handler either returns a body with a status, or lets an exception escape, which Flask
  turns into the response 500.
\<close>

datatype outcome = Reply nat json | Unhandled pyexn

fun http_status :: "outcome \<Rightarrow> nat" where
  "http_status (Reply s b) = s"
| "http_status (Unhandled e) = 500"

text \<open>Sequencing of steps that may raise.\<close>

definition and_then :: "pyexn + 'a \<Rightarrow> ('a \<Rightarrow> pyexn + 'b) \<Rightarrow> pyexn + 'b" where
  "and_then r f = (case r of Inl e \<Rightarrow> Inl e | Inr v \<Rightarrow> f v)"

text \<open>
  Python truthiness, as \<^verbatim>\<open>all([...])\<close> and \<^verbatim>\<open>not x\<close> test it: \<^verbatim>\<open>None\<close>,
  \<^verbatim>\<open>False\<close>, \<^verbatim>\<open>0\<close> and the empty text, list and dict are false.
\<close>

fun truthy :: "json \<Rightarrow> bool" where
  "truthy JNull = False"
| "truthy (JBool b) = b"
| "truthy (JNum n) = (n \<noteq> 0)"
| "truthy (JStr s) = (s \<noteq> [])"
| "truthy (JArr xs) = (xs \<noteq> [])"
| "truthy (JObj kvs) = (kvs \<noteq> [])"

text \<open>
  \<^verbatim>\<open>data.get(key, default)\<close>: the value of the key, which may be null, or the default
  when the object has no such key; only a dict has the method \<^verbatim>\<open>get\<close>. The default of
  \<^verbatim>\<open>data.get(key)\<close> is \<^verbatim>\<open>None\<close>.
\<close>

fun dict_get :: "json \<Rightarrow> string \<Rightarrow> json \<Rightarrow> pyexn + json" where
  "dict_get (JObj kvs) k d = Inr (case map_of kvs k of None \<Rightarrow> d | Some v \<Rightarrow> v)"
| "dict_get v k d = Inl AttributeError"

text \<open>Decimal notation, as \<^verbatim>\<open>str\<close> writes an integer.\<close>

fun decimal :: "nat \<Rightarrow> string" where
  "decimal n =
     (if n < 10 then [''0123456789'' ! n]
      else decimal (n div 10) @ [''0123456789'' ! (n mod 10)])"

declare decimal.simps [simp del]

definition decimal_int :: "int \<Rightarrow> string" where
  "decimal_int i = (if i < 0 then ''-'' @ decimal (nat (- i)) else decimal (nat i))"

section \<open>The users table\<close>

text \<open>
  \<^verbatim>\<open>init_db\<close> creates
  \<^verbatim>\<open>users(user_id INTEGER PRIMARY KEY AUTOINCREMENT, first_name TEXT NOT NULL,
  last_name TEXT NOT NULL, email TEXT UNIQUE NOT NULL, password_hash TEXT NOT NULL)\<close>.
  The database is the list of rows in insertion order together with the counter that
  \<^verbatim>\<open>AUTOINCREMENT\<close> keeps (the largest row id ever used). Row ids are natural numbers;
  the exhaustion of the 63-bit id space and I/O faults of the database file are outside
  the model.
\<close>

record user =
  user_id :: nat
  first_name :: string
  last_name :: string
  email :: string
  password_hash :: string

record database =
  users :: "user list"
  sqlite_sequence :: nat

text \<open>
  \<^verbatim>\<open>CREATE TABLE IF NOT EXISTS\<close>: a file that has no table yet (\<open>None\<close>) gets an empty
  one, an existing table is left alone.
\<close>

definition init_db :: "database option \<Rightarrow> database" where
  "init_db file = (case file of
      None \<Rightarrow> \<lparr>users = [], sqlite_sequence = 0\<rparr>
    | Some db \<Rightarrow> db)"

definition max_rowid :: "user list \<Rightarrow> nat" where
  "max_rowid us = foldr max (map user_id us) 0"

text \<open>
  Binding a Python value to a \<^verbatim>\<open>?\<close> of a statement: \<^verbatim>\<open>None\<close> is \<^verbatim>\<open>NULL\<close>, an
  integer (a boolean is one) is an \<^verbatim>\<open>INTEGER\<close> if it fits 64 bits, a text is a
  \<^verbatim>\<open>TEXT\<close>; lists and dicts cannot be bound.
\<close>

datatype sqlval = SqlNull | SqlInt int | SqlText string

fun bind :: "json \<Rightarrow> pyexn + sqlval" where
  "bind JNull = Inr SqlNull"
| "bind (JBool b) = Inr (SqlInt (if b then 1 else 0))"
| "bind (JNum n) =
     (if - (2 ^ 63) \<le> n \<and> n < 2 ^ 63 then Inr (SqlInt n) else Inl OverflowError)"
| "bind (JStr s) = Inr (SqlText s)"
| "bind (JArr xs) = Inl BindError"
| "bind (JObj kvs) = Inl BindError"

text \<open>
  The columns are declared \<^verbatim>\<open>TEXT\<close>: an integer stored in one, or compared with one, is
  converted to its decimal text. \<open>None\<close> stands for \<^verbatim>\<open>NULL\<close>.
\<close>

fun text_affinity :: "sqlval \<Rightarrow> string option" where
  "text_affinity SqlNull = None"
| "text_affinity (SqlInt i) = Some (decimal_int i)"
| "text_affinity (SqlText s) = Some s"

text \<open>
  What the \<^verbatim>\<open>try\<close> block of \<^verbatim>\<open>register\<close> can meet: \<^verbatim>\<open>sqlite3.IntegrityError\<close>, or
  any other exception.
\<close>

datatype insert_error = IntegrityError | OtherException

text \<open>
  \<^verbatim>\<open>INSERT INTO users (first_name, last_name, email, password_hash) VALUES (?, ?, ?, ?)\<close>
  followed by \<^verbatim>\<open>commit\<close>. A parameter that cannot be bound raises before the statement
  runs. A \<^verbatim>\<open>NULL\<close> violates \<^verbatim>\<open>NOT NULL\<close>, an email that a row already has violates
  \<^verbatim>\<open>UNIQUE\<close>; both raise \<^verbatim>\<open>sqlite3.IntegrityError\<close> and change nothing. Otherwise the
  row gets the next id and the result carries \<^verbatim>\<open>cursor.lastrowid\<close>.
\<close>

definition insert_user ::
  "database \<Rightarrow> json \<Rightarrow> json \<Rightarrow> json \<Rightarrow> json \<Rightarrow> insert_error + nat \<times> database" where
  "insert_user db fname lname mail pwhash =
    (case (bind fname, bind lname, bind mail, bind pwhash) of
       (Inr f, Inr l, Inr e, Inr h) \<Rightarrow>
         (case (text_affinity f, text_affinity l, text_affinity e, text_affinity h) of
            (Some f', Some l', Some e', Some h') \<Rightarrow>
              if e' \<in> set (map email (users db)) then Inl IntegrityError
              else
                let rowid = Suc (max (sqlite_sequence db) (max_rowid (users db)))
                in Inr (rowid,
                     \<lparr>users = users db @
                        [\<lparr>user_id = rowid, first_name = f', last_name = l', email = e',
                          password_hash = h'\<rparr>],
                      sqlite_sequence = rowid\<rparr>)
          | _ \<Rightarrow> Inl IntegrityError)
     | _ \<Rightarrow> Inl OtherException)"

text \<open>
  \<^verbatim>\<open>SELECT * FROM users WHERE email = ?\<close> with \<^verbatim>\<open>fetchone()\<close>: the first row whose
  email equals the parameter, converted as the column is; \<^verbatim>\<open>NULL\<close> equals nothing. The
  statement is outside any \<^verbatim>\<open>try\<close>, so a parameter that cannot be bound escapes.
\<close>

definition select_by_email :: "database \<Rightarrow> json \<Rightarrow> pyexn + user option" where
  "select_by_email db mail =
    and_then (bind mail) (\<lambda>b.
      Inr (case text_affinity b of
             None \<Rightarrow> None
           | Some e \<Rightarrow> find (\<lambda>u. email u = e) (users db)))"

section \<open>Password hashing\<close>

text \<open>
  \<^verbatim>\<open>generate_password_hash\<close> and \<^verbatim>\<open>check_password_hash\<close> are imported from
  \<^verbatim>\<open>werkzeug.security\<close>; their code is not part of the repository. On a text they are
  parameters of the model: the hash of a password under the salt that the call draws, and
  the verdict of the verification. On any other value they raise \<^verbatim>\<open>AttributeError\<close>,
  since they encode the password first. The salt that each call of
  \<^verbatim>\<open>generate_password_hash\<close> draws at random is an explicit argument.
\<close>

record security =
  generate_password_hash :: "string \<Rightarrow> string \<Rightarrow> string"
  check_password_hash :: "string \<Rightarrow> string \<Rightarrow> bool"

definition hash_password :: "security \<Rightarrow> string \<Rightarrow> json \<Rightarrow> pyexn + string" where
  "hash_password sec salt password =
    (case password of
       JStr pw \<Rightarrow> Inr (generate_password_hash sec salt pw)
     | _ \<Rightarrow> Inl AttributeError)"

definition verify_password :: "security \<Rightarrow> string \<Rightarrow> json \<Rightarrow> pyexn + bool" where
  "verify_password sec pwhash password =
    (case password of
       JStr pw \<Rightarrow> Inr (check_password_hash sec pwhash pw)
     | _ \<Rightarrow> Inl AttributeError)"

section \<open>Authentication endpoints\<close>

text \<open>
  \<^verbatim>\<open>register\<close> (lines 54 to 84). The four fields are read, their truth is tested, the
  hash is computed before the \<^verbatim>\<open>try\<close> block, and the row is inserted inside it. The
  handler returns the response and the database as committed. \<open>register_steps\<close> is the
  body of the handler, \<open>register\<close> adds what Flask does with an escaping exception.
\<close>

definition register_steps ::
  "security \<Rightarrow> string \<Rightarrow> database \<Rightarrow> json \<Rightarrow> pyexn + outcome \<times> database" where
  "register_steps sec salt db data =
    and_then (dict_get data ''firstName'' JNull) (\<lambda>fname.
    and_then (dict_get data ''lastName'' JNull) (\<lambda>lname.
    and_then (dict_get data ''email'' JNull) (\<lambda>mail.
    and_then (dict_get data ''password'' JNull) (\<lambda>password.
      if \<not> list_all truthy [fname, lname, mail, password]
      then Inr (Reply 400 (JObj [(''error'', JStr ''Missing required fields.'')]), db)
      else
        and_then (hash_password sec salt password) (\<lambda>pwhash.
          Inr (case insert_user db fname lname mail (JStr pwhash) of
                 Inr (lastrowid, db') \<Rightarrow>
                   (Reply 201 (JObj [(''success'', JBool True),
                                     (''message'', JStr ''Registration successful.''),
                                     (''userId'', JNum (int lastrowid))]), db')
               | Inl IntegrityError \<Rightarrow>
                   (Reply 409 (JObj [(''error'', JStr ''Email already registered.'')]), db)
               | Inl OtherException \<Rightarrow>
                   (Reply 500 (JObj [(''error'',
                       JStr ''Internal server error during registration.'')]), db)))))))"

definition register :: "security \<Rightarrow> string \<Rightarrow> database \<Rightarrow> json \<Rightarrow> outcome \<times> database" where
  "register sec salt db data =
    (case register_steps sec salt db data of
       Inl e \<Rightarrow> (Unhandled e, db)
     | Inr r \<Rightarrow> r)"

text \<open>
  \<^verbatim>\<open>login\<close> (lines 86 to 108). The source has a single \<^verbatim>\<open>else\<close> branch for a missing
  row and for a hash that does not verify: \<open>invalid_credentials\<close> is its response. The
  hash is verified only when a row was found.
\<close>

definition invalid_credentials :: outcome where
  "invalid_credentials = Reply 401 (JObj [(''error'', JStr ''Invalid email or password.'')])"

definition login_success :: "user \<Rightarrow> outcome" where
  "login_success u =
     Reply 200 (JObj [(''success'', JBool True),
                      (''userId'', JNum (int (user_id u))),
                      (''firstName'', JStr (first_name u)),
                      (''lastName'', JStr (last_name u)),
                      (''email'', JStr (email u))])"

definition login_steps :: "security \<Rightarrow> database \<Rightarrow> json \<Rightarrow> pyexn + outcome" where
  "login_steps sec db data =
    and_then (dict_get data ''email'' JNull) (\<lambda>mail.
    and_then (dict_get data ''password'' JNull) (\<lambda>password.
      if \<not> list_all truthy [mail, password]
      then Inr (Reply 400 (JObj [(''error'', JStr ''Missing email or password.'')]))
      else
        and_then (select_by_email db mail) (\<lambda>row.
          case row of
            None \<Rightarrow> Inr invalid_credentials
          | Some u \<Rightarrow>
              and_then (verify_password sec (password_hash u) password) (\<lambda>ok.
                Inr (if ok then login_success u else invalid_credentials)))))"

definition login :: "security \<Rightarrow> database \<Rightarrow> json \<Rightarrow> outcome" where
  "login sec db data =
    (case login_steps sec db data of
       Inl e \<Rightarrow> Unhandled e
     | Inr r \<Rightarrow> r)"

section \<open>The completion proxy\<close>

subsection \<open>Prompt construction\<close>

text \<open>
  An f-string writes a value with \<^verbatim>\<open>str\<close>: a text as it is, \<^verbatim>\<open>None\<close>, \<^verbatim>\<open>True\<close>
  and \<^verbatim>\<open>False\<close> by their names, an integer in decimal. What \<^verbatim>\<open>str\<close> writes for a
  list or a dict is a parameter, \<open>container_repr\<close>.
\<close>

definition py_str :: "(json \<Rightarrow> string) \<Rightarrow> json \<Rightarrow> string" where
  "py_str container_repr v =
    (case v of
       JStr s \<Rightarrow> s
     | JNull \<Rightarrow> ''None''
     | JBool b \<Rightarrow> (if b then ''True'' else ''False'')
     | JNum n \<Rightarrow> decimal_int n
     | _ \<Rightarrow> container_repr v)"

text \<open>The four f-strings of lines 128 to 142, each as the text around its one field.\<close>

definition h1_prefix :: string where
  "h1_prefix = ''Act as an expert SEO copywriter. Generate a concise, highly engaging H1 tag (single sentence, no quotes) for a webpage about the topic: ''"

definition h1_suffix :: string where
  "h1_suffix = ''. The H1 must target strong search intent.''"

definition title_prefix :: string where
  "title_prefix = ''Act as an expert SEO consultant. Shorten the following webpage title to under 60 characters for maximum SEO effectiveness and better search results display, keeping the core meaning: ''"

definition alt_prefix :: string where
  "alt_prefix = ''Act as an accessibility specialist. Write a brief, descriptive alt text (under 12 words, no quotes) for an image that is described as ''"

definition alt_suffix :: string where
  "alt_suffix = ''. Focus on describing the image content for screen readers and SEO.''"

definition meta_prefix :: string where
  "meta_prefix = ''Act as an expert marketer. Write a compelling meta description (under 160 characters, no quotes) for a webpage about ''"

definition meta_suffix :: string where
  "meta_suffix = '' to maximize click-through rates from search results. Make it action-oriented and relevant.''"

text \<open>
  The \<^verbatim>\<open>if\<close>/\<^verbatim>\<open>elif\<close> chain of lines 126 to 145: the prompt for a supported
  \<^verbatim>\<open>issueId\<close>, \<open>None\<close> for the final \<^verbatim>\<open>else\<close>. An \<^verbatim>\<open>issueId\<close> that is not a
  text equals none of the four. \<^verbatim>\<open>context.get\<close> raises when the context is not an
  object. \<open>CHR 0x27\<close> is the apostrophe and \<open>CHR 0x22\<close> the double quote.
\<close>

definition build_prompt :: "(json \<Rightarrow> string) \<Rightarrow> json \<Rightarrow> json \<Rightarrow> pyexn + string option" where
  "build_prompt container_repr issue_id context =
    (if issue_id = JStr ''no-h1'' then
       and_then (dict_get context ''topic'' (JStr ''a generic web page'')) (\<lambda>current_topic.
         Inr (Some (h1_prefix @ [CHR 0x27] @ py_str container_repr current_topic
                    @ [CHR 0x27] @ h1_suffix)))
     else if issue_id = JStr ''title-length'' then
       and_then (dict_get context ''title'' (JStr ''A very long, unoptimized title.''))
         (\<lambda>original_title.
         Inr (Some (title_prefix @ [CHR 0x22] @ py_str container_repr original_title
                    @ [CHR 0x22])))
     else if issue_id = JStr ''image-alt-text'' then
       and_then (dict_get context ''src'' (JStr ''a corporate logo'')) (\<lambda>image_src.
         Inr (Some (alt_prefix @ [CHR 0x27] @ py_str container_repr image_src
                    @ [CHR 0x27] @ alt_suffix)))
     else if issue_id = JStr ''meta-description'' then
       and_then (dict_get context ''topic'' (JStr ''company services and features''))
         (\<lambda>current_topic.
         Inr (Some (meta_prefix @ [CHR 0x27] @ py_str container_repr current_topic
                    @ [CHR 0x27] @ meta_suffix)))
     else Inr None)"

subsection \<open>The upstream call\<close>

text \<open>
  \<^verbatim>\<open>requests.post\<close> either raises a \<^verbatim>\<open>RequestException\<close> or returns a response. A
  response carries its status line, the final URL, the raw body and what
  \<^verbatim>\<open>response.json()\<close> makes of the body: the decoded document, or the message of the
  decoding error. An exception carries \<^verbatim>\<open>str(e)\<close> and the response it was raised for,
  if any.
\<close>

record http_response =
  status_code :: nat
  reason :: string
  url :: string
  body_text :: string
  body_json :: "string + json"

record request_exception =
  message :: string
  response :: "http_response option"

datatype post_result = Raised request_exception | Returned http_response

definition GEMINI_API_URL :: string where
  "GEMINI_API_URL = ''https://generativelanguage.googleapis.com/v1beta/models/gemini-2.5-flash-preview-09-2025:generateContent''"

text \<open>
  \<^verbatim>\<open>Response.raise_for_status\<close> of the requests library: an \<^verbatim>\<open>HTTPError\<close> for a status
  from 400 to 599, nothing otherwise.
\<close>

definition raise_for_status :: "http_response \<Rightarrow> request_exception option" where
  "raise_for_status r =
    (if 400 \<le> status_code r \<and> status_code r < 500 then
       Some \<lparr>message = decimal (status_code r) @ '' Client Error: '' @ reason r
                         @ '' for url: '' @ url r,
             response = Some r\<rparr>
     else if 500 \<le> status_code r \<and> status_code r < 600 then
       Some \<lparr>message = decimal (status_code r) @ '' Server Error: '' @ reason r
                         @ '' for url: '' @ url r,
             response = Some r\<rparr>
     else None)"

text \<open>
  Subscripting a decoded document: \<^verbatim>\<open>v['key']\<close> and \<^verbatim>\<open>v[0]\<close>, with the exception
  Python raises when the value has the wrong shape.
\<close>

fun getitem_key :: "json \<Rightarrow> string \<Rightarrow> pyexn + json" where
  "getitem_key (JObj kvs) k = (case map_of kvs k of None \<Rightarrow> Inl KeyError | Some v \<Rightarrow> Inr v)"
| "getitem_key v k = Inl TypeError"

fun getitem_0 :: "json \<Rightarrow> pyexn + json" where
  "getitem_0 (JArr []) = Inl IndexError"
| "getitem_0 (JArr (x # xs)) = Inr x"
| "getitem_0 (JStr []) = Inl IndexError"
| "getitem_0 (JStr (c # cs)) = Inr (JStr [c])"
| "getitem_0 (JObj kvs) = Inl KeyError"
| "getitem_0 v = Inl TypeError"

text \<open>\<^verbatim>\<open>result['candidates'][0]['content']['parts'][0]['text']\<close> (line 157).\<close>

definition first_candidate_text :: "json \<Rightarrow> pyexn + json" where
  "first_candidate_text result =
     and_then (getitem_key result ''candidates'') (\<lambda>candidates.
     and_then (getitem_0 candidates) (\<lambda>candidate.
     and_then (getitem_key candidate ''content'') (\<lambda>content.
     and_then (getitem_key content ''parts'') (\<lambda>parts.
     and_then (getitem_0 parts) (\<lambda>part.
     getitem_key part ''text'')))))"

text \<open>
  \<^verbatim>\<open>str.strip()\<close> removes the white space at both ends; below code point 256 the white
  space characters are the ones listed. \<^verbatim>\<open>.replace('"', '')\<close> deletes every double quote.
\<close>

definition is_space :: "char \<Rightarrow> bool" where
  "is_space c = (of_char c \<in> {9, 10, 11, 12, 13, 28, 29, 30, 31, 32, 133, 160 :: nat})"

definition strip :: "string \<Rightarrow> string" where
  "strip s = rev (dropWhile is_space (rev (dropWhile is_space s)))"

definition replace_dquote :: "string \<Rightarrow> string" where
  "replace_dquote s = filter (\<lambda>c. c \<noteq> CHR 0x22) s"

text \<open>
  The handler of \<^verbatim>\<open>RequestException\<close> (lines 161 to 169): \<open>error_details\<close> is computed
  and the response is built from \<^verbatim>\<open>str(e)\<close>.
\<close>

definition error_details :: "request_exception \<Rightarrow> json" where
  "error_details e =
    (case response e of
       None \<Rightarrow> JStr ''An unknown error occurred.''
     | Some r \<Rightarrow> (case body_json r of Inr j \<Rightarrow> j | Inl err \<Rightarrow> JStr (body_text r)))"

definition request_failed :: "request_exception \<Rightarrow> outcome" where
  "request_failed e =
    (let details = error_details e
     in Reply 502 (JObj [(''error'',
            JStr ''Failed to communicate with the Gemini API. Check API key or quota.''),
          (''details'', JStr (message e))]))"

definition invalid_format :: outcome where
  "invalid_format =
     Reply 500 (JObj [(''error'', JStr ''Invalid response format from the Gemini API.'')])"

text \<open>
  Lines 147 to 172: the payload, the call with the key as the query parameter
  \<^verbatim>\<open>key\<close>, and the extraction. An undecodable body makes
  \<^verbatim>\<open>response.json()\<close> raise the \<^verbatim>\<open>JSONDecodeError\<close> of requests, which is a
  \<^verbatim>\<open>RequestException\<close> without a response.
\<close>

definition payload :: "string \<Rightarrow> json" where
  "payload prompt =
     JObj [(''contents'', JArr [JObj [(''parts'', JArr [JObj [(''text'', JStr prompt)]])]])]"

definition complete ::
  "(string \<Rightarrow> string \<Rightarrow> json \<Rightarrow> post_result) \<Rightarrow> string \<Rightarrow> string \<Rightarrow> outcome" where
  "complete post key prompt =
    (case post GEMINI_API_URL key (payload prompt) of
          Raised e \<Rightarrow> request_failed e
        | Returned r \<Rightarrow>
            (case raise_for_status r of
               Some e \<Rightarrow> request_failed e
             | None \<Rightarrow>
                 (case body_json r of
                    Inl err \<Rightarrow> request_failed \<lparr>message = err, response = None\<rparr>
                  | Inr result \<Rightarrow>
                      (case first_candidate_text result of
                         Inr (JStr t) \<Rightarrow>
                           Reply 200 (JObj [(''suggestion'',
                             JStr (replace_dquote (strip t)))])
                       | Inr v \<Rightarrow> Unhandled AttributeError
                       | Inl KeyError \<Rightarrow> invalid_format
                       | Inl IndexError \<Rightarrow> invalid_format
                       | Inl e \<Rightarrow> Unhandled e))))"

text \<open>
  \<^verbatim>\<open>generate_fix\<close> (lines 112 to 172). \<open>api_key\<close> is \<^verbatim>\<open>GEMINI_API_KEY\<close>, the value of
  \<^verbatim>\<open>os.getenv\<close> at start-up: \<open>None\<close> when the variable is not set. The key is tested
  before the body is read; \<^verbatim>\<open>data.get('context', {})\<close> reads an absent context as the
  empty object and a null one as \<^verbatim>\<open>None\<close>.
\<close>

fun configured :: "string option \<Rightarrow> bool" where
  "configured None = False"
| "configured (Some key) = (key \<noteq> [])"

definition no_api_key :: outcome where
  "no_api_key =
     Reply 500 (JObj [(''error'', JStr ''Gemini API key is not configured on the server.'')])"

definition issue_required :: outcome where
  "issue_required = Reply 400 (JObj [(''error'', JStr ''issueId is required.'')])"

definition unsupported_issue :: outcome where
  "unsupported_issue =
     Reply 400 (JObj [(''error'', JStr ''Unsupported issueId for AI content generation.'')])"

definition generate_fix_steps ::
  "(json \<Rightarrow> string) \<Rightarrow> string option \<Rightarrow> (string \<Rightarrow> string \<Rightarrow> json \<Rightarrow> post_result) \<Rightarrow> json
    \<Rightarrow> pyexn + outcome" where
  "generate_fix_steps container_repr api_key post data =
    (case api_key of
       None \<Rightarrow> Inr no_api_key
     | Some key \<Rightarrow>
         if key = [] then Inr no_api_key
         else
           and_then (dict_get data ''issueId'' JNull) (\<lambda>issue_id.
           and_then (dict_get data ''context'' (JObj [])) (\<lambda>context.
             if \<not> truthy issue_id then Inr issue_required
             else
               and_then (build_prompt container_repr issue_id context) (\<lambda>prompt.
                 Inr (case prompt of
                        None \<Rightarrow> unsupported_issue
                      | Some p \<Rightarrow> complete post key p)))))"

definition generate_fix ::
  "(json \<Rightarrow> string) \<Rightarrow> string option \<Rightarrow> (string \<Rightarrow> string \<Rightarrow> json \<Rightarrow> post_result) \<Rightarrow> json
    \<Rightarrow> outcome" where
  "generate_fix container_repr api_key post data =
    (case generate_fix_steps container_repr api_key post data of
       Inl e \<Rightarrow> Unhandled e
     | Inr r \<Rightarrow> r)"

section \<open>Distinguishing phrases of the prompts\<close>

text \<open>
  Each template opens with a role and an instruction that no other template has: these
  are the phrases by which a prompt is recognised as belonging to its \<^verbatim>\<open>issueId\<close>.
\<close>

definition distinguishing_phrases :: "string \<Rightarrow> string list" where
  "distinguishing_phrases issue_id =
    (if issue_id = ''no-h1'' then
       [''Act as an expert SEO copywriter'', ''Generate a concise, highly engaging H1 tag'']
     else if issue_id = ''title-length'' then
       [''Act as an expert SEO consultant'',
        ''Shorten the following webpage title to under 60 characters'']
     else if issue_id = ''image-alt-text'' then
       [''Act as an accessibility specialist'', ''Write a brief, descriptive alt text'']
     else if issue_id = ''meta-description'' then
       [''Act as an expert marketer'', ''Write a compelling meta description'']
     else [])"

text \<open>Whether a built prompt contains a phrase (Python's \<^verbatim>\<open>phrase in prompt\<close>).\<close>

definition prompt_contains :: "string option \<Rightarrow> string \<Rightarrow> bool" where
  "prompt_contains p phrase = (case p of None \<Rightarrow> False | Some s \<Rightarrow> sublist phrase s)"

section \<open>Sample data\<close>

text \<open>
  A toy instance of the hashing library, with the hash \<^verbatim>\<open>plain$salt$\<close> followed by the
  salt and the password in the clear, a table with one row, requests, and upstream
  servers with fixed answers. They serve as concrete inputs on which the theorems below
  are instantiated.
\<close>

definition demo_security :: security where
  "demo_security =
     \<lparr>generate_password_hash = (\<lambda>salt password. ''plain$'' @ salt @ ''$'' @ salt @ password),
      check_password_hash = (\<lambda>pwhash password.
        let rest = drop 6 pwhash; salt = takeWhile (\<lambda>c. c \<noteq> CHR ''$'') rest
        in take 6 pwhash = ''plain$'' \<and> drop (Suc (length salt)) rest = salt @ password)\<rparr>"

definition ada :: user where
  "ada = \<lparr>user_id = 1, first_name = ''Ada'', last_name = ''Lovelace'',
          email = ''ada@example.com'', password_hash = ''plain$s4lt$s4ltengine''\<rparr>"

definition demo_db :: database where
  "demo_db = \<lparr>users = [ada], sqlite_sequence = 1\<rparr>"



definition login_request :: "json \<Rightarrow> json \<Rightarrow> json" where
  "login_request mail password = JObj [(''email'', mail), (''password'', password)]"

definition no_repr :: "json \<Rightarrow> string" where
  "no_repr v = ''...''"

definition demo_response :: "nat \<Rightarrow> string \<Rightarrow> string \<Rightarrow> string + json \<Rightarrow> http_response" where
  "demo_response code phrase raw decoded =
     \<lparr>status_code = code, reason = phrase, url = GEMINI_API_URL @ ''?key=k3y'',
      body_text = raw, body_json = decoded\<rparr>"

definition demo_post :: "http_response \<Rightarrow> string \<Rightarrow> string \<Rightarrow> json \<Rightarrow> post_result" where
  "demo_post r u key body = Returned r"

text \<open>A well-formed answer with two candidates.\<close>

definition candidates_doc :: "string \<Rightarrow> string \<Rightarrow> json" where
  "candidates_doc t t' =
     JObj [(''candidates'',
       JArr [JObj [(''content'', JObj [(''parts'', JArr [JObj [(''text'', JStr t)]])])],
             JObj [(''content'', JObj [(''parts'', JArr [JObj [(''text'', JStr t')]])])]])]"

text \<open>
  An upstream answer 429 whose body is the JSON document
  \<^verbatim>\<open>{"error": "quota exceeded"}\<close>.
\<close>

definition quota_response :: http_response where
  "quota_response =
     demo_response 429 ''Too Many Requests''
       (''{'' @ [CHR 0x22] @ ''error'' @ [CHR 0x22] @ '': '' @ [CHR 0x22] @ ''quota exceeded''
          @ [CHR 0x22] @ ''}'')
       (Inr (JObj [(''error'', JStr ''quota exceeded'')]))"

section \<open>The key check of the proxy\<close>

text \<open>
  C10. When no API key is configured (the environment variable is unset or empty), every
  request to \<^verbatim>\<open>/generate-fix\<close> is answered with status 500, whatever the body holds: the
  key is checked before \<^verbatim>\<open>issueId\<close> is read, so a missing or unsupported \<^verbatim>\<open>issueId\<close>
  gets 500 and not 400.
\<close>

theorem generate_fix_without_key:
  assumes "\<not> configured api_key"
  shows "generate_fix container_repr api_key post data =
           Reply 500 (JObj [(''error'', JStr ''Gemini API key is not configured on the server.'')])
         \<and> http_status (generate_fix container_repr api_key post data) = 500"
  using assms
  by (cases api_key) (simp_all add: generate_fix_def generate_fix_steps_def no_api_key_def)

theorem generate_fix_without_key_witness:
  "\<not> configured None
   \<and> generate_fix no_repr None (demo_post (demo_response 200 ''OK'' '''' (Inr JNull)))
       (JObj [(''issueId'', JStr ''unknown-id'')]) =
       Reply 500 (JObj [(''error'', JStr ''Gemini API key is not configured on the server.'')])
   \<and> \<not> configured (Some '''')
   \<and> http_status (generate_fix no_repr (Some '''')
        (demo_post (demo_response 200 ''OK'' '''' (Inr JNull))) (JObj [])) = 500
   \<and> http_status (generate_fix no_repr None
        (demo_post (demo_response 200 ''OK'' '''' (Inr JNull))) JNull) = 500"
  using generate_fix_without_key [of None no_repr
      "demo_post (demo_response 200 ''OK'' '''' (Inr JNull))"
      "JObj [(''issueId'', JStr ''unknown-id'')]"]
    generate_fix_without_key [of "Some ''''" no_repr
      "demo_post (demo_response 200 ''OK'' '''' (Inr JNull))" "JObj []"]
    generate_fix_without_key [of None no_repr
      "demo_post (demo_response 200 ''OK'' '''' (Inr JNull))" JNull]
  by simp

section \<open>Unsupported issue ids\<close>

lemma build_prompt_unsupported:
  assumes "issue_id \<notin> {JStr ''no-h1'', JStr ''title-length'', JStr ''image-alt-text'',
                          JStr ''meta-description''}"
  shows "build_prompt container_repr issue_id context = Inr None"
  using assms by (simp add: build_prompt_def)

text \<open>
  C7. For every \<^verbatim>\<open>issueId\<close> other than \<^verbatim>\<open>no-h1\<close>, \<^verbatim>\<open>title-length\<close>,
  \<^verbatim>\<open>image-alt-text\<close> and \<^verbatim>\<open>meta-description\<close>, whether a text or not, prompt building
  fails (the final \<^verbatim>\<open>else\<close> of the chain), and the endpoint, with a key configured,
  answers with status 400 whatever else the body holds; for a truthy \<^verbatim>\<open>issueId\<close> the
  body is the unsupported-issue error.
\<close>

theorem unsupported_issue_400:
  assumes "issue_id \<notin> {JStr ''no-h1'', JStr ''title-length'', JStr ''image-alt-text'',
                          JStr ''meta-description''}"
    and "configured api_key"
    and "map_of kvs ''issueId'' = Some issue_id"
  shows "build_prompt container_repr issue_id context = Inr None
       \<and> http_status (generate_fix container_repr api_key post (JObj kvs)) = 400
       \<and> (truthy issue_id \<longrightarrow>
            generate_fix container_repr api_key post (JObj kvs) =
              Reply 400 (JObj [(''error'', JStr ''Unsupported issueId for AI content generation.'')]))"
proof -
  from assms(2) obtain key where key: "api_key = Some key" "key \<noteq> []"
    by (cases api_key) auto
  have none: "build_prompt container_repr issue_id c = Inr None" for c
    using assms(1) by (rule build_prompt_unsupported)
  show ?thesis
    using key none assms(3)
    by (simp add: generate_fix_def generate_fix_steps_def and_then_def unsupported_issue_def
        issue_required_def)
qed

theorem unsupported_issue_400_witness:
  "JStr ''unknown-id'' \<notin> {JStr ''no-h1'', JStr ''title-length'', JStr ''image-alt-text'',
                          JStr ''meta-description''}
   \<and> configured (Some ''k3y'') \<and> truthy (JStr ''unknown-id'')
   \<and> map_of [(''issueId'', JStr ''unknown-id''), (''context'', JNull)] ''issueId'' =
       Some (JStr ''unknown-id'')
   \<and> build_prompt no_repr (JStr ''unknown-id'') (JObj []) = Inr None
   \<and> generate_fix no_repr (Some ''k3y'') (demo_post (demo_response 200 ''OK'' '''' (Inr JNull)))
        (JObj [(''issueId'', JStr ''unknown-id''), (''context'', JNull)]) =
        Reply 400 (JObj [(''error'', JStr ''Unsupported issueId for AI content generation.'')])"
  using unsupported_issue_400 [of "JStr ''unknown-id''" "Some ''k3y''"
      "[(''issueId'', JStr ''unknown-id''), (''context'', JNull)]" no_repr "JObj []"
      "demo_post (demo_response 200 ''OK'' '''' (Inr JNull))"]
  by simp

section \<open>The prompt for a missing H1\<close>


lemma sublist_sep:
  assumes "c \<notin> set xs"
  shows "sublist xs (as @ c # bs) \<longleftrightarrow> sublist xs as \<or> sublist xs bs"
proof
  assume "sublist xs (as @ c # bs)"
  then consider "sublist xs as" | "sublist xs (c # bs)"
    | xs1 xs2 where "xs = xs1 @ xs2" "suffix xs1 as" "prefix xs2 (c # bs)"
    by (auto simp: sublist_append)
  then show "sublist xs as \<or> sublist xs bs"
  proof cases
    case 1
    then show ?thesis by simp
  next
    case 2
    then have "prefix xs (c # bs) \<or> sublist xs bs"
      by (simp add: sublist_Cons_right)
    moreover have "xs = []" if "prefix xs (c # bs)"
      using that assms by (cases xs) (auto simp: prefix_Cons)
    ultimately show ?thesis by auto
  next
    case 3
    have "xs2 = []"
      using 3(1,3) assms by (cases xs2) (auto simp: prefix_Cons)
    with 3 have "suffix xs as" by simp
    then show ?thesis by (simp add: suffix_imp_sublist)
  qed
next
  assume "sublist xs as \<or> sublist xs bs"
  then show "sublist xs (as @ c # bs)"
  proof
    assume "sublist xs as"
    then show ?thesis by (auto simp: sublist_append)
  next
    assume "sublist xs bs"
    then have "sublist xs (c # bs)" by (simp add: sublist_Cons_right)
    then show ?thesis by (auto simp: sublist_append)
  qed
qed

lemma foreign_consultant:
  "CHR 0x27 \<notin> set ''Act as an expert SEO consultant''
   \<and> \<not> sublist ''Act as an expert SEO consultant'' h1_prefix
   \<and> \<not> sublist ''Act as an expert SEO consultant'' h1_suffix
   \<and> \<not> sublist ''Act as an expert SEO consultant'' ''a generic web page''"
  unfolding h1_prefix_def h1_suffix_def
  by (simp add: sublist_Cons_right prefix_Cons)

lemma foreign_shorten:
  "CHR 0x27 \<notin> set ''Shorten the following webpage title to under 60 characters''
   \<and> \<not> sublist ''Shorten the following webpage title to under 60 characters'' h1_prefix
   \<and> \<not> sublist ''Shorten the following webpage title to under 60 characters'' h1_suffix
   \<and> \<not> sublist ''Shorten the following webpage title to under 60 characters'' ''a generic web page''"
  unfolding h1_prefix_def h1_suffix_def
  by (simp add: sublist_Cons_right prefix_Cons)

lemma foreign_accessibility:
  "CHR 0x27 \<notin> set ''Act as an accessibility specialist''
   \<and> \<not> sublist ''Act as an accessibility specialist'' h1_prefix
   \<and> \<not> sublist ''Act as an accessibility specialist'' h1_suffix
   \<and> \<not> sublist ''Act as an accessibility specialist'' ''a generic web page''"
  unfolding h1_prefix_def h1_suffix_def
  by (simp add: sublist_Cons_right prefix_Cons)

lemma foreign_alt_text:
  "CHR 0x27 \<notin> set ''Write a brief, descriptive alt text''
   \<and> \<not> sublist ''Write a brief, descriptive alt text'' h1_prefix
   \<and> \<not> sublist ''Write a brief, descriptive alt text'' h1_suffix
   \<and> \<not> sublist ''Write a brief, descriptive alt text'' ''a generic web page''"
  unfolding h1_prefix_def h1_suffix_def
  by (simp add: sublist_Cons_right prefix_Cons)

lemma foreign_marketer:
  "CHR 0x27 \<notin> set ''Act as an expert marketer''
   \<and> \<not> sublist ''Act as an expert marketer'' h1_prefix
   \<and> \<not> sublist ''Act as an expert marketer'' h1_suffix
   \<and> \<not> sublist ''Act as an expert marketer'' ''a generic web page''"
  unfolding h1_prefix_def h1_suffix_def
  by (simp add: sublist_Cons_right prefix_Cons)

lemma foreign_meta:
  "CHR 0x27 \<notin> set ''Write a compelling meta description''
   \<and> \<not> sublist ''Write a compelling meta description'' h1_prefix
   \<and> \<not> sublist ''Write a compelling meta description'' h1_suffix
   \<and> \<not> sublist ''Write a compelling meta description'' ''a generic web page''"
  unfolding h1_prefix_def h1_suffix_def
  by (simp add: sublist_Cons_right prefix_Cons)

lemma foreign_phrase:
  assumes "other \<noteq> ''no-h1''" and "phrase \<in> set (distinguishing_phrases other)"
  shows "CHR 0x27 \<notin> set phrase \<and> \<not> sublist phrase h1_prefix \<and> \<not> sublist phrase h1_suffix
         \<and> \<not> sublist phrase ''a generic web page''"
proof -
  consider "other = ''title-length''" | "other = ''image-alt-text''"
    | "other = ''meta-description''"
    | "other \<notin> {''no-h1'', ''title-length'', ''image-alt-text'', ''meta-description''}"
    using assms(1) by blast
  then show ?thesis
  proof cases
    case 1
    with assms(2) have "phrase = ''Act as an expert SEO consultant''
        \<or> phrase = ''Shorten the following webpage title to under 60 characters''"
      by (simp add: distinguishing_phrases_def)
    then show ?thesis
      using foreign_consultant foreign_shorten by (elim disjE) (simp_all only: simp_thms)
  next
    case 2
    with assms(2) have "phrase = ''Act as an accessibility specialist''
        \<or> phrase = ''Write a brief, descriptive alt text''"
      by (simp add: distinguishing_phrases_def)
    then show ?thesis
      using foreign_accessibility foreign_alt_text by (elim disjE) (simp_all only: simp_thms)
  next
    case 3
    with assms(2) have "phrase = ''Act as an expert marketer''
        \<or> phrase = ''Write a compelling meta description''"
      by (simp add: distinguishing_phrases_def)
    then show ?thesis
      using foreign_marketer foreign_meta by (elim disjE) (simp_all only: simp_thms)
  next
    case 4
    with assms(2) show ?thesis by (simp add: distinguishing_phrases_def)
  qed
qed

lemma h1_prompt_sublist:
  assumes "CHR 0x27 \<notin> set phrase"
  shows "sublist phrase (h1_prefix @ [CHR 0x27] @ t @ [CHR 0x27] @ h1_suffix)
         \<longleftrightarrow> sublist phrase h1_prefix \<or> sublist phrase t \<or> sublist phrase h1_suffix"
proof -
  have "sublist phrase (h1_prefix @ CHR 0x27 # (t @ CHR 0x27 # h1_suffix))
        \<longleftrightarrow> sublist phrase h1_prefix \<or> sublist phrase (t @ CHR 0x27 # h1_suffix)"
    using assms by (rule sublist_sep)
  also have "sublist phrase (t @ CHR 0x27 # h1_suffix)
        \<longleftrightarrow> sublist phrase t \<or> sublist phrase h1_suffix"
    using assms by (rule sublist_sep)
  finally show ?thesis by simp
qed

lemma no_h1_built:
  assumes "build_prompt container_repr (JStr ''no-h1'') context = Inr (Some p)"
  shows "\<exists>kvs. context = JObj kvs
     \<and> p = h1_prefix @ [CHR 0x27]
           @ py_str container_repr
               (case map_of kvs ''topic'' of None \<Rightarrow> JStr ''a generic web page'' | Some v \<Rightarrow> v)
           @ [CHR 0x27] @ h1_suffix"
  using assms by (cases "context") (auto simp: build_prompt_def and_then_def)

text \<open>
  C6, as amended. For \<^verbatim>\<open>issueId\<close> \<^verbatim>\<open>no-h1\<close>, a prompt that is built contains the
  literal text of the context field \<^verbatim>\<open>topic\<close> when the field is present and a text, and
  the default text \<^verbatim>\<open>a generic web page\<close> when the context has no such field. The value
  of the field is interpolated as it is, so the prompt contains a distinguishing phrase
  of another \<^verbatim>\<open>issueId\<close> only when the context has a \<^verbatim>\<open>topic\<close> whose interpolated text
  contains that phrase, and then it does.
\<close>

theorem no_h1_prompt:
  assumes "build_prompt container_repr (JStr ''no-h1'') context = Inr (Some p)"
  shows "(\<forall>kvs t. context = JObj kvs \<longrightarrow> map_of kvs ''topic'' = Some (JStr t) \<longrightarrow> sublist t p)
     \<and> (\<forall>kvs. context = JObj kvs \<longrightarrow> map_of kvs ''topic'' = None \<longrightarrow>
            sublist ''a generic web page'' p)
     \<and> (\<forall>other phrase. other \<noteq> ''no-h1'' \<longrightarrow> phrase \<in> set (distinguishing_phrases other) \<longrightarrow>
          (sublist phrase p \<longleftrightarrow>
             (\<exists>kvs v. context = JObj kvs \<and> map_of kvs ''topic'' = Some v
                \<and> sublist phrase (py_str container_repr v))))"
proof -
  from no_h1_built [OF assms] obtain kvs where is_object: "context = JObj kvs"
    and p: "p = h1_prefix @ [CHR 0x27]
           @ py_str container_repr
               (case map_of kvs ''topic'' of None \<Rightarrow> JStr ''a generic web page'' | Some v \<Rightarrow> v)
           @ [CHR 0x27] @ h1_suffix"
    by blast
  define t where "t = py_str container_repr
      (case map_of kvs ''topic'' of None \<Rightarrow> JStr ''a generic web page'' | Some v \<Rightarrow> v)"
  have p': "p = h1_prefix @ [CHR 0x27] @ t @ [CHR 0x27] @ h1_suffix"
    by (simp add: p t_def)
  have inside: "sublist t p"
    unfolding p' by (metis append_assoc sublist_appendI)
  have present: "sublist s p" if "map_of kvs ''topic'' = Some (JStr s)" for s
    using inside that by (simp add: t_def py_str_def)
  have absent: "sublist ''a generic web page'' p" if "map_of kvs ''topic'' = None"
    using inside that by (simp add: t_def py_str_def)
  have foreign: "sublist phrase p \<longleftrightarrow>
      (\<exists>kvs v. context = JObj kvs \<and> map_of kvs ''topic'' = Some v
         \<and> sublist phrase (py_str container_repr v))"
    if "other \<noteq> ''no-h1''" and "phrase \<in> set (distinguishing_phrases other)" for other phrase
  proof -
    note fp = foreign_phrase [OF that]
    have "sublist phrase p \<longleftrightarrow> sublist phrase t"
      unfolding p' using h1_prompt_sublist [of phrase t] fp by blast
    also have "\<dots> \<longleftrightarrow> (\<exists>v. map_of kvs ''topic'' = Some v
         \<and> sublist phrase (py_str container_repr v))"
    proof (cases "map_of kvs ''topic''")
      case None
      then have "t = ''a generic web page''" by (simp add: t_def py_str_def)
      with fp None show ?thesis by simp
    next
      case (Some v)
      then have "t = py_str container_repr v" by (simp add: t_def)
      with Some show ?thesis by simp
    qed
    finally show ?thesis by (simp add: is_object)
  qed
  show ?thesis
    using present absent foreign by (simp add: is_object)
qed

theorem no_h1_prompt_witness:
  "build_prompt no_repr (JStr ''no-h1'') (JObj [(''topic'', JStr ''coffee shop'')]) =
     Inr (Some (h1_prefix @ [CHR 0x27] @ ''coffee shop'' @ [CHR 0x27] @ h1_suffix))
   \<and> map_of [(''topic'', JStr ''coffee shop'')] ''topic'' = Some (JStr ''coffee shop'')
   \<and> sublist ''coffee shop'' (h1_prefix @ [CHR 0x27] @ ''coffee shop'' @ [CHR 0x27] @ h1_suffix)
   \<and> ''title-length'' \<noteq> ''no-h1''
   \<and> ''Act as an expert SEO consultant'' \<in> set (distinguishing_phrases ''title-length'')
   \<and> \<not> sublist ''Act as an expert SEO consultant''
         (h1_prefix @ [CHR 0x27] @ ''coffee shop'' @ [CHR 0x27] @ h1_suffix)
   \<and> build_prompt no_repr (JStr ''no-h1'') (JObj []) =
       Inr (Some (h1_prefix @ [CHR 0x27] @ ''a generic web page'' @ [CHR 0x27] @ h1_suffix))
   \<and> map_of ([] :: (string \<times> json) list) ''topic'' = None
   \<and> sublist ''a generic web page''
        (h1_prefix @ [CHR 0x27] @ ''a generic web page'' @ [CHR 0x27] @ h1_suffix)"
proof -
  let ?p = "h1_prefix @ [CHR 0x27] @ ''coffee shop'' @ [CHR 0x27] @ h1_suffix"
  let ?q = "h1_prefix @ [CHR 0x27] @ ''a generic web page'' @ [CHR 0x27] @ h1_suffix"
  have built: "build_prompt no_repr (JStr ''no-h1'') (JObj [(''topic'', JStr ''coffee shop'')]) =
     Inr (Some ?p)"
    by (simp add: build_prompt_def and_then_def py_str_def)
  have built': "build_prompt no_repr (JStr ''no-h1'') (JObj []) = Inr (Some ?q)"
    by (simp add: build_prompt_def and_then_def py_str_def)
  have member: "''Act as an expert SEO consultant'' \<in> set (distinguishing_phrases ''title-length'')"
    by (simp add: distinguishing_phrases_def)
  have other: "''title-length'' \<noteq> ''no-h1''"
    by simp
  have clean: "\<not> sublist ''Act as an expert SEO consultant'' ''coffee shop''"
    by (simp add: sublist_Cons_right prefix_Cons)
  note inst = no_h1_prompt [OF built]
  note topic_rule = inst [THEN conjunct1, rule_format]
  note foreign_rule = inst [THEN conjunct2, THEN conjunct2, rule_format]
  have topic: "sublist ''coffee shop'' ?p"
    by (rule topic_rule [of "[(''topic'', JStr ''coffee shop'')]"]) simp_all
  have "\<not> (\<exists>kvs v. JObj [(''topic'', JStr ''coffee shop'')] = JObj kvs
         \<and> map_of kvs ''topic'' = Some v
         \<and> sublist ''Act as an expert SEO consultant'' (py_str no_repr v))"
    using clean by (auto simp: py_str_def)
  then have absent: "\<not> sublist ''Act as an expert SEO consultant'' ?p"
    using foreign_rule [OF other member] by (simp only: simp_thms)
  note default_rule = no_h1_prompt [OF built', THEN conjunct2, THEN conjunct1, rule_format]
  have default: "sublist ''a generic web page'' ?q"
    by (rule default_rule [of "[]"]) simp_all
  have lookup: "map_of [(''topic'', JStr ''coffee shop'')] ''topic'' = Some (JStr ''coffee shop'')"
    "map_of ([] :: (string \<times> json) list) ''topic'' = None"
    by simp_all
  show ?thesis
    by (intro conjI built built' member other topic absent default lookup)
qed

text \<open>
  C6, as stated, fails: a topic that repeats the opening of the \<^verbatim>\<open>meta-description\<close>
  template puts that phrase into the \<^verbatim>\<open>no-h1\<close> prompt.
\<close>

theorem no_h1_prompt_counterexample:
  "''meta-description'' \<noteq> ''no-h1''
   \<and> ''Act as an expert marketer'' \<in> set (distinguishing_phrases ''meta-description'')
   \<and> build_prompt no_repr (JStr ''no-h1'') (JObj [(''topic'', JStr ''Act as an expert marketer'')]) =
       Inr (Some (h1_prefix @ [CHR 0x27] @ ''Act as an expert marketer'' @ [CHR 0x27] @ h1_suffix))
   \<and> sublist ''Act as an expert marketer''
        (h1_prefix @ [CHR 0x27] @ ''Act as an expert marketer'' @ [CHR 0x27] @ h1_suffix)"
proof -
  have "sublist ''Act as an expert marketer''
          ((h1_prefix @ [CHR 0x27]) @ ''Act as an expert marketer'' @ ([CHR 0x27] @ h1_suffix))"
    by (rule sublist_appendI)
  then show ?thesis
    by (simp add: build_prompt_def and_then_def py_str_def distinguishing_phrases_def)
qed

section \<open>The suggestion returned to the caller\<close>

lemma strip_ends:
  assumes "strip s \<noteq> []"
  shows "\<not> is_space (hd (strip s)) \<and> \<not> is_space (last (strip s))"
proof -
  define a where "a = dropWhile is_space s"
  define b where "b = dropWhile is_space (rev a)"
  have s: "strip s = rev b"
    by (simp add: strip_def a_def b_def)
  with assms have b: "b \<noteq> []" by simp
  then have hb: "\<not> is_space (hd b)"
    unfolding b_def by (rule hd_dropWhile)
  from b have a: "a \<noteq> []"
    by (auto simp: b_def)
  then have ha: "\<not> is_space (hd a)"
    unfolding a_def by (rule hd_dropWhile)
  have "last b = last (rev a)"
    using b unfolding b_def by (metis dropWhile_eq_Nil_conv dropWhile_last)
  then have "last b = hd a"
    using a by (simp add: last_rev)
  with ha hb b show ?thesis
    by (simp add: s hd_rev last_rev)
qed

lemma strip_decomposition:
  "\<exists>lead trail. s = lead @ strip s @ trail \<and> list_all is_space lead \<and> list_all is_space trail"
proof -
  define a where "a = dropWhile is_space s"
  define lead where "lead = takeWhile is_space s"
  define trail where "trail = rev (takeWhile is_space (rev a))"
  have "s = lead @ a"
    by (simp add: lead_def a_def)
  moreover have "a = strip s @ trail"
  proof -
    have "rev (takeWhile is_space (rev a) @ dropWhile is_space (rev a)) = rev (rev a)"
      by (simp only: takeWhile_dropWhile_id)
    then have eq: "rev (dropWhile is_space (rev a)) @ rev (takeWhile is_space (rev a)) = a"
      by (simp only: rev_append rev_rev_ident)
    have st: "strip s = rev (dropWhile is_space (rev a))"
      by (simp add: strip_def a_def)
    show ?thesis
      using eq by (simp only: st trail_def)
  qed
  moreover have "list_all is_space lead"
    by (auto simp: lead_def list_all_iff dest: set_takeWhileD)
  moreover have "list_all is_space trail"
    by (auto simp: trail_def list_all_iff dest: set_takeWhileD)
  ultimately show ?thesis by metis
qed

lemma complete_first_candidate:
  assumes "post GEMINI_API_URL key (payload prompt) = Returned r"
    and "status_code r < 400"
    and "body_json r = Inr (JObj doc)"
    and "map_of doc ''candidates'' = Some (JArr (JObj candidate # more_candidates))"
    and "map_of candidate ''content'' = Some (JObj content)"
    and "map_of content ''parts'' = Some (JArr (JObj part # more_parts))"
    and "map_of part ''text'' = Some (JStr t)"
  shows "complete post key prompt =
           Reply 200 (JObj [(''suggestion'', JStr (filter (\<lambda>c. c \<noteq> CHR 0x22) (strip t)))])"
  using assms
  by (simp add: complete_def raise_for_status_def first_candidate_text_def and_then_def
      replace_dquote_def)

text \<open>
  C5. When the key is configured, a prompt is built and the upstream answers with a
  status that \<^verbatim>\<open>raise_for_status\<close> lets pass and a body whose first candidate has, in
  its first part, the text \<open>t\<close>, the caller receives status 200 and, as suggestion, the
  text \<open>t\<close> without the white space at its two ends and then without any double quote:
  \<open>strip t\<close> is \<open>t\<close> less a leading and a trailing run of white space, and neither
  starts nor ends with white space.
\<close>

theorem suggestion_is_cleaned_text:
  assumes "key \<noteq> []"
    and "map_of kvs ''issueId'' = Some issue_id"
    and "build_prompt container_repr issue_id
           (case map_of kvs ''context'' of None \<Rightarrow> JObj [] | Some v \<Rightarrow> v) = Inr (Some prompt)"
    and "post GEMINI_API_URL key (payload prompt) = Returned r"
    and "status_code r < 400"
    and "body_json r = Inr (JObj doc)"
    and "map_of doc ''candidates'' = Some (JArr (JObj candidate # more_candidates))"
    and "map_of candidate ''content'' = Some (JObj content)"
    and "map_of content ''parts'' = Some (JArr (JObj part # more_parts))"
    and "map_of part ''text'' = Some (JStr t)"
  shows "generate_fix container_repr (Some key) post (JObj kvs) =
           Reply 200 (JObj [(''suggestion'', JStr (filter (\<lambda>c. c \<noteq> CHR 0x22) (strip t)))])
         \<and> (\<exists>lead trail. t = lead @ strip t @ trail
               \<and> list_all is_space lead \<and> list_all is_space trail)
         \<and> (strip t \<noteq> [] \<longrightarrow> \<not> is_space (hd (strip t)) \<and> \<not> is_space (last (strip t)))"
proof -
  have "truthy issue_id"
    using assms(3) by (auto simp: build_prompt_def split: if_splits)
  then have "generate_fix container_repr (Some key) post (JObj kvs) = complete post key prompt"
    using assms(1-3) by (simp add: generate_fix_def generate_fix_steps_def and_then_def)
  moreover have "complete post key prompt =
      Reply 200 (JObj [(''suggestion'', JStr (filter (\<lambda>c. c \<noteq> CHR 0x22) (strip t)))])"
    using assms(4-10) by (rule complete_first_candidate)
  ultimately show ?thesis
    using strip_decomposition [of t] strip_ends [of t] by simp
qed

theorem suggestion_is_cleaned_text_witness:
  "''k3y'' \<noteq> []
   \<and> build_prompt no_repr (JStr ''no-h1'') (JObj [(''topic'', JStr ''coffee shop'')]) =
       Inr (Some (h1_prefix @ [CHR 0x27] @ ''coffee shop'' @ [CHR 0x27] @ h1_suffix))
   \<and> status_code (demo_response 200 ''OK'' ''''
        (Inr (candidates_doc (''  Hello '' @ [CHR 0x22] @ ''World'' @ [CHR 0x22, CHR 0x0A])
                ''Goodbye''))) < 400
   \<and> generate_fix no_repr (Some ''k3y'')
        (demo_post (demo_response 200 ''OK'' ''''
           (Inr (candidates_doc (''  Hello '' @ [CHR 0x22] @ ''World'' @ [CHR 0x22, CHR 0x0A])
                   ''Goodbye''))))
        (JObj [(''issueId'', JStr ''no-h1''),
               (''context'', JObj [(''topic'', JStr ''coffee shop'')])]) =
       Reply 200 (JObj [(''suggestion'', JStr ''Hello World'')])
   \<and> strip (''  Hello '' @ [CHR 0x22] @ ''World'' @ [CHR 0x22, CHR 0x0A]) \<noteq> []
   \<and> \<not> is_space (hd (strip (''  Hello '' @ [CHR 0x22] @ ''World'' @ [CHR 0x22, CHR 0x0A])))"
proof -
  let ?t = "''  Hello '' @ [CHR 0x22] @ ''World'' @ [CHR 0x22, CHR 0x0A]"
  let ?r = "demo_response 200 ''OK'' '''' (Inr (candidates_doc ?t ''Goodbye''))"
  let ?kvs = "[(''issueId'', JStr ''no-h1''),
               (''context'', JObj [(''topic'', JStr ''coffee shop'')])]"
  let ?prompt = "h1_prefix @ [CHR 0x27] @ ''coffee shop'' @ [CHR 0x27] @ h1_suffix"
  have key: "''k3y'' \<noteq> []" by simp
  have issue: "map_of ?kvs ''issueId'' = Some (JStr ''no-h1'')" by simp
  have built: "build_prompt no_repr (JStr ''no-h1'') (JObj [(''topic'', JStr ''coffee shop'')]) =
      Inr (Some ?prompt)"
    by (simp add: build_prompt_def and_then_def py_str_def)
  then have built': "build_prompt no_repr (JStr ''no-h1'')
      (case map_of ?kvs ''context'' of None \<Rightarrow> JObj [] | Some v \<Rightarrow> v) = Inr (Some ?prompt)"
    by simp
  have post: "demo_post ?r GEMINI_API_URL ''k3y'' (payload ?prompt) = Returned ?r"
    by (simp add: demo_post_def)
  have status: "status_code ?r < 400"
    by (simp add: demo_response_def)
  have body: "body_json ?r = Inr (JObj [(''candidates'',
       JArr [JObj [(''content'', JObj [(''parts'', JArr [JObj [(''text'', JStr ?t)]])])],
             JObj [(''content'', JObj [(''parts'', JArr [JObj [(''text'', JStr ''Goodbye'')]])])]])])"
    by (simp add: demo_response_def candidates_doc_def)
  have stripped: "strip ?t = ''Hello '' @ [CHR 0x22] @ ''World'' @ [CHR 0x22]"
    by (simp add: strip_def is_space_def)
  note inst = suggestion_is_cleaned_text [where key = "''k3y''" and kvs = ?kvs
      and issue_id = "JStr ''no-h1''" and container_repr = no_repr and prompt = ?prompt
      and post = "demo_post ?r" and r = ?r and t = ?t,
      OF key issue built' post status body]
  have "generate_fix no_repr (Some ''k3y'') (demo_post ?r) (JObj ?kvs) =
      Reply 200 (JObj [(''suggestion'', JStr (filter (\<lambda>c. c \<noteq> CHR 0x22) (strip ?t)))])"
    and "strip ?t \<noteq> [] \<longrightarrow> \<not> is_space (hd (strip ?t))"
    using inst by simp_all
  then show ?thesis
    using built status stripped by simp
qed

lemma hello_world_example:
  "complete (demo_post (demo_response 200 ''OK'' ''''
       (Inr (candidates_doc (''Hello '' @ [CHR 0x22] @ ''World'' @ [CHR 0x22]) ''Goodbye''))))
     ''k3y'' prompt =
   Reply 200 (JObj [(''suggestion'', JStr ''Hello World'')])"
  by (simp add: complete_def demo_post_def demo_response_def raise_for_status_def
      candidates_doc_def first_candidate_text_def and_then_def replace_dquote_def strip_def
      is_space_def)

section \<open>Failures of the upstream call\<close>

lemma request_failed_reply:
  "request_failed e =
     Reply 502 (JObj [(''error'',
         JStr ''Failed to communicate with the Gemini API. Check API key or quota.''),
       (''details'', JStr (message e))])"
  by (simp add: request_failed_def)

lemma upstream_error_502:
  assumes "post GEMINI_API_URL key (payload prompt) = Returned r"
    and "400 \<le> status_code r" and "status_code r < 600"
  shows "\<exists>e. raise_for_status r = Some e
     \<and> complete post key prompt =
         Reply 502 (JObj [(''error'',
             JStr ''Failed to communicate with the Gemini API. Check API key or quota.''),
           (''details'', JStr (message e))])"
  using assms by (auto simp: complete_def raise_for_status_def request_failed_reply)

text \<open>
  C4 at a concrete input: the upstream answers 429 with the body
  \<^verbatim>\<open>{"error": "quota exceeded"}\<close>. The handler computes \<open>error_details\<close>, which is the
  decoded body, and answers 502 with a body whose \<^verbatim>\<open>details\<close> is the text of the
  exception: the upstream body is in no field of the response.
\<close>

theorem upstream_error_body_dropped:
  "generate_fix no_repr (Some ''k3y'') (demo_post quota_response)
      (JObj [(''issueId'', JStr ''no-h1'')]) =
     Reply 502 (JObj [(''error'',
         JStr ''Failed to communicate with the Gemini API. Check API key or quota.''),
       (''details'', JStr (''429 Client Error: Too Many Requests for url: ''
                            @ GEMINI_API_URL @ ''?key=k3y''))])
   \<and> error_details
        \<lparr>message = ''429 Client Error: Too Many Requests for url: '' @ GEMINI_API_URL @ ''?key=k3y'',
         response = Some quota_response\<rparr> =
       JObj [(''error'', JStr ''quota exceeded'')]"
proof -
  have dec: "decimal 429 = ''429''"
    by (simp add: decimal.simps)
  have raised: "raise_for_status quota_response =
      Some \<lparr>message = ''429 Client Error: Too Many Requests for url: '' @ GEMINI_API_URL @ ''?key=k3y'',
            response = Some quota_response\<rparr>"
    by (simp add: raise_for_status_def quota_response_def demo_response_def dec)
  have built: "build_prompt no_repr (JStr ''no-h1'') (JObj []) =
      Inr (Some (h1_prefix @ [CHR 0x27] @ ''a generic web page'' @ [CHR 0x27] @ h1_suffix))"
    by (simp add: build_prompt_def and_then_def py_str_def)
  have reply: "generate_fix no_repr (Some ''k3y'') (demo_post quota_response)
      (JObj [(''issueId'', JStr ''no-h1'')]) =
     request_failed \<lparr>message = ''429 Client Error: Too Many Requests for url: ''
                        @ GEMINI_API_URL @ ''?key=k3y'',
                     response = Some quota_response\<rparr>"
    by (simp add: generate_fix_def generate_fix_steps_def and_then_def built complete_def
        demo_post_def raised)
  have details: "error_details
        \<lparr>message = ''429 Client Error: Too Many Requests for url: '' @ GEMINI_API_URL @ ''?key=k3y'',
         response = Some quota_response\<rparr> =
       JObj [(''error'', JStr ''quota exceeded'')]"
    by (simp add: error_details_def quota_response_def demo_response_def)
  show ?thesis
    using reply details by (simp add: request_failed_reply)
qed

section \<open>Registration\<close>



lemma find_fresh_last:
  assumes "\<forall>x \<in> set xs. \<not> P x" and "P y"
  shows "find P (xs @ [y]) = Some y"
  using assms by (induction xs) auto

lemma register_text_fields:
  assumes "map_of kvs ''firstName'' = Some (JStr f)" and "f \<noteq> []"
    and "map_of kvs ''lastName'' = Some (JStr l)" and "l \<noteq> []"
    and "map_of kvs ''email'' = Some (JStr e)" and "e \<noteq> []"
    and "map_of kvs ''password'' = Some (JStr pw)" and "pw \<noteq> []"
  shows "register sec salt db (JObj kvs) =
     (if e \<in> set (map email (users db))
      then (Reply 409 (JObj [(''error'', JStr ''Email already registered.'')]), db)
      else (Reply 201 (JObj [(''success'', JBool True),
                             (''message'', JStr ''Registration successful.''),
                             (''userId'', JNum (int (Suc (max (sqlite_sequence db)
                                                           (max_rowid (users db))))))]),
            \<lparr>users = users db @
               [\<lparr>user_id = Suc (max (sqlite_sequence db) (max_rowid (users db))),
                 first_name = f, last_name = l, email = e,
                 password_hash = generate_password_hash sec salt pw\<rparr>],
             sqlite_sequence = Suc (max (sqlite_sequence db) (max_rowid (users db)))\<rparr>))"
  using assms
  by (simp add: register_def register_steps_def and_then_def hash_password_def
      insert_user_def Let_def)

lemma register_non_text_password:
  assumes "map_of kvs ''firstName'' = Some fname" and "truthy fname"
    and "map_of kvs ''lastName'' = Some lname" and "truthy lname"
    and "map_of kvs ''email'' = Some mail" and "truthy mail"
    and "map_of kvs ''password'' = Some password" and "truthy password"
    and "\<forall>pw. password \<noteq> JStr pw"
  shows "register sec salt db (JObj kvs) = (Unhandled AttributeError, db)"
  using assms
  by (cases password)
    (simp_all add: register_def register_steps_def and_then_def hash_password_def)

lemma register_unbindable_name:
  assumes "map_of kvs ''firstName'' = Some (JArr (x # xs))"
    and "map_of kvs ''lastName'' = Some (JStr l)" and "l \<noteq> []"
    and "map_of kvs ''email'' = Some (JStr e)" and "e \<noteq> []"
    and "map_of kvs ''password'' = Some (JStr pw)" and "pw \<noteq> []"
  shows "register sec salt db (JObj kvs) =
     (Reply 500 (JObj [(''error'', JStr ''Internal server error during registration.'')]), db)"
  using assms
  by (simp add: register_def register_steps_def and_then_def hash_password_def
      insert_user_def)

lemma register_not_an_object:
  assumes "\<forall>kvs. data \<noteq> JObj kvs"
  shows "register sec salt db data = (Unhandled AttributeError, db)"
  using assms
  by (cases data) (simp_all add: register_def register_steps_def and_then_def)







lemma unique_emails_init: "distinct (map email (users (init_db None)))"
  by (simp add: init_db_def)

lemma register_preserves_unique_emails:
  assumes "distinct (map email (users db))"
  shows "distinct (map email (users (snd (register sec salt db data))))"
proof (cases "register_steps sec salt db data")
  case (Inl e)
  with assms show ?thesis by (simp add: register_def)
next
  case (Inr res)
  then have "snd res = db \<or>
      (\<exists>f l e h uid. e \<notin> set (map email (users db))
         \<and> users (snd res) = users db @
             [\<lparr>user_id = uid, first_name = f, last_name = l, email = e, password_hash = h\<rparr>])"
    by (auto simp: register_steps_def and_then_def insert_user_def Let_def
        split: sum.splits if_splits option.splits prod.splits insert_error.splits)
  with assms Inr show ?thesis
    by (auto simp: register_def)
qed

section \<open>Login\<close>

lemma select_by_email_found:
  assumes "select_by_email db mail = Inr (Some u)"
  shows "u \<in> set (users db) \<and> (\<exists>b. bind mail = Inr b \<and> text_affinity b = Some (email u))"
proof -
  from assms obtain b where b: "bind mail = Inr b"
    by (cases "bind mail") (auto simp: select_by_email_def and_then_def)
  with assms obtain e where e: "text_affinity b = Some e"
    and found: "find (\<lambda>u. email u = e) (users db) = Some u"
    by (cases "text_affinity b") (auto simp: select_by_email_def and_then_def)
  from found have "u \<in> set (users db) \<and> email u = e"
    by (auto simp: find_Some_iff)
  with b e show ?thesis by simp
qed

lemma login_success_ignores_hash:
  "login_success (u\<lparr>password_hash := h\<rparr>) = login_success u"
  by (simp add: login_success_def)

lemma login_missing_field:
  assumes "map_of kvs ''email'' = None \<or> map_of kvs ''password'' = None
      \<or> (\<exists>v. map_of kvs ''email'' = Some v \<and> \<not> truthy v)
      \<or> (\<exists>v. map_of kvs ''password'' = Some v \<and> \<not> truthy v)"
  shows "login sec db (JObj kvs) =
           Reply 400 (JObj [(''error'', JStr ''Missing email or password.'')])"
  using assms by (auto simp: login_def login_steps_def and_then_def split: option.splits)

lemma login_non_text_password:
  assumes "map_of kvs ''email'' = Some mail" and "truthy mail"
    and "map_of kvs ''password'' = Some password" and "truthy password"
    and "\<forall>pw. password \<noteq> JStr pw"
    and "select_by_email db mail = Inr (Some u)"
  shows "login sec db (JObj kvs) = Unhandled AttributeError"
  using assms
  by (cases password)
    (simp_all add: login_def login_steps_def and_then_def verify_password_def)




text \<open>
  C8. Every login answered with status 200 found a row of the table by the email of the
  request, and its body is the success flag together with \<^verbatim>\<open>userId\<close>, \<^verbatim>\<open>firstName\<close>,
  \<^verbatim>\<open>lastName\<close> and \<^verbatim>\<open>email\<close> of that row; the password hash is in no field.
\<close>

theorem login_success_public_fields:
  assumes "http_status (login sec db data) = 200"
  shows "\<exists>u mail b. u \<in> set (users db)
     \<and> dict_get data ''email'' JNull = Inr mail
     \<and> bind mail = Inr b \<and> text_affinity b = Some (email u)
     \<and> select_by_email db mail = Inr (Some u)
     \<and> login sec db data =
         Reply 200 (JObj [(''success'', JBool True),
                          (''userId'', JNum (int (user_id u))),
                          (''firstName'', JStr (first_name u)),
                          (''lastName'', JStr (last_name u)),
                          (''email'', JStr (email u))])"
proof -
  from assms obtain mail u where mail: "dict_get data ''email'' JNull = Inr mail"
    and found: "select_by_email db mail = Inr (Some u)"
    and reply: "login sec db data = login_success u"
    by (auto simp: login_def login_steps_def and_then_def invalid_credentials_def
        split: sum.splits if_splits option.splits)
  from select_by_email_found [OF found] mail found reply show ?thesis
    by (auto simp: login_success_def)
qed

theorem login_success_public_fields_witness:
  "http_status (login demo_security demo_db
      (login_request (JStr ''ada@example.com'') (JStr ''engine''))) = 200
   \<and> login demo_security demo_db (login_request (JStr ''ada@example.com'') (JStr ''engine'')) =
       Reply 200 (JObj [(''success'', JBool True), (''userId'', JNum 1),
                        (''firstName'', JStr ''Ada''), (''lastName'', JStr ''Lovelace''),
                        (''email'', JStr ''ada@example.com'')])"
proof -
  let ?req = "login_request (JStr ''ada@example.com'') (JStr ''engine'')"
  have ok: "http_status (login demo_security demo_db ?req) = 200"
    by (simp add: login_def login_steps_def and_then_def verify_password_def
        select_by_email_def login_request_def demo_db_def ada_def demo_security_def
        login_success_def)
  from login_success_public_fields [OF ok]
  obtain u where u: "u \<in> set (users demo_db)"
    and reply: "login demo_security demo_db ?req =
         Reply 200 (JObj [(''success'', JBool True),
                          (''userId'', JNum (int (user_id u))),
                          (''firstName'', JStr (first_name u)),
                          (''lastName'', JStr (last_name u)),
                          (''email'', JStr (email u))])"
    by blast
  from u have "u = ada"
    by (simp add: demo_db_def)
  with reply ok show ?thesis by (simp add: ada_def)
qed

lemma login_after_register:
  assumes "map_of kvs ''firstName'' = Some (JStr f)" and "f \<noteq> []"
    and "map_of kvs ''lastName'' = Some (JStr l)" and "l \<noteq> []"
    and "map_of kvs ''email'' = Some (JStr e)" and "e \<noteq> []"
    and "map_of kvs ''password'' = Some (JStr pw)" and "pw \<noteq> []"
    and "e \<notin> set (map email (users db))"
    and "register sec salt db (JObj kvs) = (r, db')"
    and "check_password_hash sec (generate_password_hash sec salt pw) pw"
  shows "\<exists>uid. r = Reply 201 (JObj [(''success'', JBool True),
                           (''message'', JStr ''Registration successful.''),
                           (''userId'', JNum (int uid))])
     \<and> login sec db' (JObj [(''email'', JStr e), (''password'', JStr pw)]) =
         Reply 200 (JObj [(''success'', JBool True), (''userId'', JNum (int uid)),
                          (''firstName'', JStr f), (''lastName'', JStr l),
                          (''email'', JStr e)])"
proof -
  let ?uid = "Suc (max (sqlite_sequence db) (max_rowid (users db)))"
  let ?row = "\<lparr>user_id = ?uid, first_name = f, last_name = l, email = e,
               password_hash = generate_password_hash sec salt pw\<rparr>"
  from register_text_fields [OF assms(1-8), of sec salt db] assms(9,10)
  have r: "r = Reply 201 (JObj [(''success'', JBool True),
                           (''message'', JStr ''Registration successful.''),
                           (''userId'', JNum (int ?uid))])"
    and db': "users db' = users db @ [?row]"
    by auto
  have "find (\<lambda>u. email u = e) (users db @ [?row]) = Some ?row"
    using assms(9) by (intro find_fresh_last) auto
  then have "select_by_email db' (JStr e) = Inr (Some ?row)"
    by (simp add: select_by_email_def and_then_def db')
  then have "login sec db' (JObj [(''email'', JStr e), (''password'', JStr pw)]) =
      login_success ?row"
    using assms(6,8,11)
    by (simp add: login_def login_steps_def and_then_def verify_password_def)
  with r show ?thesis
    by (intro exI [of _ ?uid]) (simp add: login_success_def)
qed

end
